theory Spec2Isabelle
  imports Main
begin

section \<open>Python values\<close>

text \<open>
  The two enumerations of \<^verbatim>\<open>sagemaker/rl/estimator.py\<close>, with the \<^verbatim>\<open>.value\<close> of each member.
\<close>

datatype RLToolkit = COACH | RAY

datatype RLFramework = TENSORFLOW | MXNET

fun toolkit_value :: "RLToolkit \<Rightarrow> string" where
  "toolkit_value COACH = ''coach''"
| "toolkit_value RAY = ''ray''"

fun framework_value :: "RLFramework \<Rightarrow> string" where
  "framework_value TENSORFLOW = ''tensorflow''"
| "framework_value MXNET = ''mxnet''"

text \<open>
  The Python objects that reach the modelled functions: \<^verbatim>\<open>None\<close>, booleans, integers,
  strings and the members of the two enumerations. A string is a list of code points
  below 256. Floats and containers nested in a value are not modelled.
\<close>

datatype pyval =
    PyNone
  | PyBool bool
  | PyInt int
  | PyStr string
  | PyToolkit RLToolkit
  | PyFramework RLFramework

text \<open>Python's truth value of an object, as \<^verbatim>\<open>if x:\<close> and \<^verbatim>\<open>not x\<close> test it.\<close>

fun truthy :: "pyval \<Rightarrow> bool" where
  "truthy PyNone = False"
| "truthy (PyBool b) = b"
| "truthy (PyInt i) = (i \<noteq> 0)"
| "truthy (PyStr s) = (s \<noteq> [])"
| "truthy (PyToolkit t) = True"
| "truthy (PyFramework f) = True"

text \<open>The truth value of an optional string argument (\<^verbatim>\<open>None\<close> or a \<^verbatim>\<open>str\<close>).\<close>

fun truthy_str :: "string option \<Rightarrow> bool" where
  "truthy_str None = False"
| "truthy_str (Some s) = (s \<noteq> [])"

fun opt_str :: "string option \<Rightarrow> pyval" where
  "opt_str None = PyNone"
| "opt_str (Some s) = PyStr s"

definition digit_char :: "nat \<Rightarrow> char" where
  "digit_char n = ''0123456789'' ! n"

fun nat_to_dec :: "nat \<Rightarrow> string" where
  "nat_to_dec n =
     (if n < 10 then [digit_char n] else nat_to_dec (n div 10) @ [digit_char (n mod 10)])"

declare nat_to_dec.simps [simp del]

definition int_to_dec :: "int \<Rightarrow> string" where
  "int_to_dec i = (if i < 0 then CHR ''-'' # nat_to_dec (nat (- i)) else nat_to_dec (nat i))"

text \<open>
  Modelled from the spec: \<^verbatim>\<open>sagemaker.utils.to_str\<close> is imported by
  \<^verbatim>\<open>parameter.py\<close> and is not among the sources. The spec calls it a string coercion
  that never fails; it is Python's \<^verbatim>\<open>str\<close> on the modelled values.
\<close>

fun to_str :: "pyval \<Rightarrow> string" where
  "to_str PyNone = ''None''"
| "to_str (PyBool b) = (if b then ''True'' else ''False'')"
| "to_str (PyInt i) = int_to_dec i"
| "to_str (PyStr s) = s"
| "to_str (PyToolkit t) = (case t of COACH \<Rightarrow> ''RLToolkit.COACH'' | RAY \<Rightarrow> ''RLToolkit.RAY'')"
| "to_str (PyFramework f) =
     (case f of TENSORFLOW \<Rightarrow> ''RLFramework.TENSORFLOW'' | MXNET \<Rightarrow> ''RLFramework.MXNET'')"

text \<open>The exceptions the modelled code raises, each with its message.\<close>

datatype exn =
    ValueError string
  | AttributeError string
  | KeyError string
  | TypeError string

section \<open>Parameter ranges (\<^verbatim>\<open>parameter.py\<close>)\<close>

text \<open>
  \<^verbatim>\<open>ParameterRange\<close> with its three attributes; the bounds are of any linearly ordered
  numeric type (integers for \<^verbatim>\<open>IntegerParameter\<close>).
\<close>

record 'a ParameterRange =
  min_value :: 'a
  max_value :: 'a
  scaling_type :: string

definition ParameterRange_init :: "'a \<Rightarrow> 'a \<Rightarrow> string \<Rightarrow> 'a ParameterRange" where
  "ParameterRange_init lo hi st = \<lparr>min_value = lo, max_value = hi, scaling_type = st\<rparr>"

definition is_valid :: "'a::linorder ParameterRange \<Rightarrow> 'a \<Rightarrow> bool" where
  "is_valid self v = (v \<ge> min_value self \<and> v \<le> max_value self)"

text \<open>
  \<^verbatim>\<open>CategoricalParameter.__init__\<close> takes a list or one object that is not a list.
\<close>

datatype categorical_arg = ValuesList "pyval list" | SingleValue pyval

record CategoricalParameter =
  cat_values :: "string list"

definition CategoricalParameter_init :: "categorical_arg \<Rightarrow> CategoricalParameter" where
  "CategoricalParameter_init arg =
     (case arg of
        ValuesList vs \<Rightarrow> \<lparr>cat_values = map to_str vs\<rparr>
      | SingleValue v \<Rightarrow> \<lparr>cat_values = [to_str v]\<rparr>)"

record tuning_range =
  Name :: string
  Values :: "string list"

definition as_tuning_range :: "CategoricalParameter \<Rightarrow> string \<Rightarrow> tuning_range" where
  "as_tuning_range self name = \<lparr>Name = name, Values = cat_values self\<rparr>"

definition categorical_is_valid :: "CategoricalParameter \<Rightarrow> string \<Rightarrow> bool" where
  "categorical_is_valid self v = (v \<in> set (cat_values self))"

subsection \<open>JSON encoding of strings\<close>

text \<open>
  \<^verbatim>\<open>json.dumps\<close> of a string, as the standard library writes it with its default
  \<^verbatim>\<open>ensure_ascii=True\<close>: the string in double quotes, with the quote, the backslash and
  the five named control characters escaped by a backslash, every other character outside
  the printable ASCII range written as \<^verbatim>\<open>\uXXXX\<close> with four lower-case hexadecimal
  digits.
\<close>

definition hexdigit :: "nat \<Rightarrow> char" where
  "hexdigit n = ''0123456789abcdef'' ! n"

definition hex4 :: "nat \<Rightarrow> string" where
  "hex4 n = [hexdigit (n div 4096 mod 16), hexdigit (n div 256 mod 16),
             hexdigit (n div 16 mod 16), hexdigit (n mod 16)]"

definition escape_char :: "char \<Rightarrow> string" where
  "escape_char c =
     (if c = CHR 0x22 then [CHR 0x5C, CHR 0x22]
      else if c = CHR 0x5C then [CHR 0x5C, CHR 0x5C]
      else if c = CHR 0x0A then [CHR 0x5C, CHR ''n'']
      else if c = CHR 0x0D then [CHR 0x5C, CHR ''r'']
      else if c = CHR 0x09 then [CHR 0x5C, CHR ''t'']
      else if c = CHR 0x08 then [CHR 0x5C, CHR ''b'']
      else if c = CHR 0x0C then [CHR 0x5C, CHR ''f'']
      else if 32 \<le> (of_char c :: nat) \<and> (of_char c :: nat) \<le> 126 then [c]
      else [CHR 0x5C, CHR ''u''] @ hex4 (of_char c))"

definition json_dumps :: "string \<Rightarrow> string" where
  "json_dumps s = CHR 0x22 # concat (map escape_char s) @ [CHR 0x22]"

text \<open>
  \<^verbatim>\<open>json.loads\<close> on a document that holds one scalar: a string, an integer,
  \<^verbatim>\<open>true\<close>, \<^verbatim>\<open>false\<close> or \<^verbatim>\<open>null\<close>, with white space around it. The result is
  \<open>None\<close> where the decoder raises (and for arrays, objects, floats and the non-finite
  constants, which are not modelled). Strings are scanned as the strict scanner does: a raw control character and
  an unknown escape are errors, \<^verbatim>\<open>\uXXXX\<close> accepts digits of either case.
\<close>

definition hexval :: "char \<Rightarrow> nat option" where
  "hexval c =
     (let n = (of_char c :: nat) in
      if 48 \<le> n \<and> n \<le> 57 then Some (n - 48)
      else if 97 \<le> n \<and> n \<le> 102 then Some (n - 87)
      else if 65 \<le> n \<and> n \<le> 70 then Some (n - 55)
      else None)"

definition unhex4 :: "char \<Rightarrow> char \<Rightarrow> char \<Rightarrow> char \<Rightarrow> nat option" where
  "unhex4 a b c d =
     (case (hexval a, hexval b, hexval c, hexval d) of
        (Some w, Some x, Some y, Some z) \<Rightarrow> Some (4096 * w + 256 * x + 16 * y + z)
      | _ \<Rightarrow> None)"

definition unescape :: "char \<Rightarrow> char option" where
  "unescape e =
     (if e = CHR 0x22 then Some (CHR 0x22)
      else if e = CHR 0x5C then Some (CHR 0x5C)
      else if e = CHR ''/'' then Some (CHR ''/'')
      else if e = CHR ''b'' then Some (CHR 0x08)
      else if e = CHR ''f'' then Some (CHR 0x0C)
      else if e = CHR ''n'' then Some (CHR 0x0A)
      else if e = CHR ''r'' then Some (CHR 0x0D)
      else if e = CHR ''t'' then Some (CHR 0x09)
      else None)"

fun cons_result :: "char \<Rightarrow> (string \<times> string) option \<Rightarrow> (string \<times> string) option" where
  "cons_result c None = None"
| "cons_result c (Some (s, r)) = Some (c # s, r)"

fun scanstring :: "string \<Rightarrow> (string \<times> string) option" where
  "scanstring [] = None"
| "scanstring (c # cs) =
     (if c = CHR 0x22 then Some ([], cs)
      else if c = CHR 0x5C then
        (case cs of
           [] \<Rightarrow> None
         | e # es \<Rightarrow>
             if e = CHR ''u'' then
               (case es of
                  h1 # h2 # h3 # h4 # r \<Rightarrow>
                    (case unhex4 h1 h2 h3 h4 of
                       None \<Rightarrow> None
                     | Some n \<Rightarrow> if n < 256 then cons_result (char_of n) (scanstring r) else None)
                | _ \<Rightarrow> None)
             else
               (case unescape e of
                  None \<Rightarrow> None
                | Some d \<Rightarrow> cons_result d (scanstring es)))
      else if (of_char c :: nat) < 32 then None
      else cons_result c (scanstring cs))"

definition is_json_ws :: "char \<Rightarrow> bool" where
  "is_json_ws c = (c = CHR '' '' \<or> c = CHR 0x09 \<or> c = CHR 0x0A \<or> c = CHR 0x0D)"

definition is_digit :: "char \<Rightarrow> bool" where
  "is_digit c = (48 \<le> (of_char c :: nat) \<and> (of_char c :: nat) \<le> 57)"

fun dec_to_nat :: "nat \<Rightarrow> string \<Rightarrow> nat" where
  "dec_to_nat acc [] = acc"
| "dec_to_nat acc (c # cs) = dec_to_nat (10 * acc + (of_char c - 48)) cs"

definition scan_nat :: "string \<Rightarrow> nat option" where
  "scan_nat ds =
     (if ds = [] \<or> \<not> list_all is_digit ds then None
      else if hd ds = CHR ''0'' \<and> tl ds \<noteq> [] then None
      else Some (dec_to_nat 0 ds))"

definition scan_once :: "string \<Rightarrow> pyval option" where
  "scan_once s =
     (case s of
        [] \<Rightarrow> None
      | c # cs \<Rightarrow>
          if c = CHR 0x22 then
            (case scanstring cs of
               None \<Rightarrow> None
             | Some (v, r) \<Rightarrow> if list_all is_json_ws r then Some (PyStr v) else None)
          else
            (let body = takeWhile (\<lambda>x. \<not> is_json_ws x) s;
                 r = dropWhile (\<lambda>x. \<not> is_json_ws x) s in
             if \<not> list_all is_json_ws r then None
             else if body = ''null'' then Some PyNone
             else if body = ''true'' then Some (PyBool True)
             else if body = ''false'' then Some (PyBool False)
             else if c = CHR ''-'' then map_option (\<lambda>n. PyInt (- int n)) (scan_nat (tl body))
             else map_option (\<lambda>n. PyInt (int n)) (scan_nat body)))"

definition json_loads :: "string \<Rightarrow> pyval option" where
  "json_loads s = scan_once (dropWhile is_json_ws s)"

text \<open>\<^verbatim>\<open>CategoricalParameter.as_json_range\<close>: each stored value is JSON-encoded on its own.\<close>

definition as_json_range :: "CategoricalParameter \<Rightarrow> string \<Rightarrow> tuning_range" where
  "as_json_range self name = \<lparr>Name = name, Values = map json_dumps (cat_values self)\<rparr>"

section \<open>The RL estimator (\<^verbatim>\<open>rl/estimator.py\<close>)\<close>

subsection \<open>The tag parser\<close>

text \<open>
  The regular expression \<^verbatim>\<open>^([A-Z]*|[a-z]*)(\d.*)-(cpu|gpu)-(py2|py3)$\<close> is matched
  from the start of the tag as Python's backtracking matcher does. The character classes
  are those of the expression: on code points below 256, \<^verbatim>\<open>\d\<close> is an ASCII digit, and
  \<^verbatim>\<open>.\<close> is any character but the newline.
\<close>

definition is_upper :: "char \<Rightarrow> bool" where
  "is_upper c = (65 \<le> (of_char c :: nat) \<and> (of_char c :: nat) \<le> 90)"

definition is_lower :: "char \<Rightarrow> bool" where
  "is_lower c = (97 \<le> (of_char c :: nat) \<and> (of_char c :: nat) \<le> 122)"

definition not_newline :: "char \<Rightarrow> bool" where
  "not_newline c = (c \<noteq> CHR 0x0A)"

text \<open>
  The tail of the pattern, \<^verbatim>\<open>-(cpu|gpu)-(py2|py3)$\<close>, as a test on the rest of the tag:
  each piece takes the test for what follows it. Python's \<^verbatim>\<open>$\<close> holds at the end of
  the string and just before a newline that ends the string.
\<close>

fun match_literal :: "string \<Rightarrow> string \<Rightarrow> string option" where
  "match_literal [] s = Some s"
| "match_literal (p # ps) [] = None"
| "match_literal (p # ps) (c # cs) = (if p = c then match_literal ps cs else None)"

definition lit :: "string \<Rightarrow> (string \<Rightarrow> bool) \<Rightarrow> string \<Rightarrow> bool" where
  "lit p k s = (case match_literal p s of None \<Rightarrow> False | Some r \<Rightarrow> k r)"

definition alt2 :: "string \<Rightarrow> string \<Rightarrow> (string \<Rightarrow> bool) \<Rightarrow> string \<Rightarrow> bool" where
  "alt2 a b k s = (lit a k s \<or> lit b k s)"

definition at_end :: "string \<Rightarrow> bool" where
  "at_end s = (s = [] \<or> s = [CHR 0x0A])"

definition tail_match :: "string \<Rightarrow> bool" where
  "tail_match = lit ''-'' (alt2 ''cpu'' ''gpu'' (lit ''-'' (alt2 ''py2'' ''py3'' at_end)))"

text \<open>
  A greedy star over a class of characters, with backtracking: \<open>star p k s\<close> first takes
  one more character of the class and, only if nothing matches that way, hands the rest
  to \<open>k\<close>. It returns the text the star matched and the result of \<open>k\<close>.
\<close>

fun star :: "(char \<Rightarrow> bool) \<Rightarrow> (string \<Rightarrow> 'a option) \<Rightarrow> string \<Rightarrow> (string \<times> 'a) option" where
  "star p k [] = map_option (Pair []) (k [])"
| "star p k (c # cs) =
     (if p c then
        (case star p k cs of
           Some (m, x) \<Rightarrow> Some (c # m, x)
         | None \<Rightarrow> map_option (Pair []) (k (c # cs)))
      else map_option (Pair []) (k (c # cs)))"

text \<open>The second group and what follows it: \<^verbatim>\<open>(\d.*)-(cpu|gpu)-(py2|py3)$\<close>.\<close>

definition version_match :: "string \<Rightarrow> string option" where
  "version_match s =
     (case s of
        [] \<Rightarrow> None
      | d # cs \<Rightarrow>
          if is_digit d then
            (case star not_newline (\<lambda>r. if tail_match r then Some () else None) cs of
               None \<Rightarrow> None
             | Some (m, _) \<Rightarrow> Some (d # m))
          else None)"

text \<open>
  \<^verbatim>\<open>RLEstimator._toolkit_and_version_from_tag\<close>: the first group tries \<^verbatim>\<open>[A-Z]*\<close>
  and then \<^verbatim>\<open>[a-z]*\<close>; the two groups of a match are returned, \<^verbatim>\<open>(None, None)\<close>
  when there is none.
\<close>

definition toolkit_and_version_from_tag :: "string \<Rightarrow> string option \<times> string option" where
  "toolkit_and_version_from_tag image_tag =
     (case star is_upper version_match image_tag of
        Some (g1, g2) \<Rightarrow> (Some g1, Some g2)
      | None \<Rightarrow>
          (case star is_lower version_match image_tag of
             Some (g1, g2) \<Rightarrow> (Some g1, Some g2)
           | None \<Rightarrow> (None, None)))"

definition device_py_suffixes :: "string list" where
  "device_py_suffixes = [''-cpu-py2'', ''-cpu-py3'', ''-gpu-py2'', ''-gpu-py3'']"

definition version_shape :: "string \<Rightarrow> bool" where
  "version_shape v = (case v of [] \<Rightarrow> False | d # m \<Rightarrow> is_digit d \<and> list_all not_newline m)"

definition letters_shape :: "string \<Rightarrow> bool" where
  "letters_shape l = (list_all is_upper l \<or> list_all is_lower l)"

text \<open>
  The pattern in the specification's words,
  \<^verbatim>\<open><toolkit-or-framework-letters><version>-<cpu|gpu>-<py2|py3>\<close>: letters of one case,
  a version that starts with a digit and stays on one line, a device and a Python version,
  and nothing after them.
\<close>

definition tag_pattern :: "string \<Rightarrow> string \<Rightarrow> string \<Rightarrow> bool" where
  "tag_pattern letters version image_tag =
     (letters_shape letters \<and> version_shape version
      \<and> image_tag \<in> set (map (\<lambda>sfx. letters @ version @ sfx) device_py_suffixes))"

text \<open>The same pattern, where one newline may follow the Python version.\<close>

definition tag_pattern_newline :: "string \<Rightarrow> string \<Rightarrow> string \<Rightarrow> bool" where
  "tag_pattern_newline letters version image_tag =
     (tag_pattern letters version image_tag
      \<or> (letters_shape letters \<and> version_shape version
          \<and> image_tag
             \<in> set (map (\<lambda>sfx. letters @ version @ sfx @ [CHR 0x0A]) device_py_suffixes)))"

subsection \<open>Construction\<close>

definition SAGEMAKER_ESTIMATOR :: string where
  "SAGEMAKER_ESTIMATOR = ''sagemaker_estimator''"

definition SAGEMAKER_ESTIMATOR_VALUE :: string where
  "SAGEMAKER_ESTIMATOR_VALUE = ''RLEstimator''"

definition PYTHON_VERSION :: string where
  "PYTHON_VERSION = ''py3''"

text \<open>The support table, a dictionary of dictionaries, as nested association lists.\<close>

definition TOOLKIT_FRAMEWORK_VERSION_MAP :: "(string \<times> (string \<times> (string \<times> string) list) list) list" where
  "TOOLKIT_FRAMEWORK_VERSION_MAP =
     [(''coach'',
        [(''0.10.1'', [(''tensorflow'', ''1.11'')]),
         (''0.10'', [(''tensorflow'', ''1.11'')]),
         (''0.11.0'', [(''tensorflow'', ''1.11''), (''mxnet'', ''1.3'')]),
         (''0.11.1'', [(''tensorflow'', ''1.12'')]),
         (''0.11'', [(''tensorflow'', ''1.12''), (''mxnet'', ''1.3'')])]),
      (''ray'',
        [(''0.5.3'', [(''tensorflow'', ''1.11'')]),
         (''0.5'', [(''tensorflow'', ''1.11'')]),
         (''0.6.5'', [(''tensorflow'', ''1.12'')]),
         (''0.6'', [(''tensorflow'', ''1.12'')])])]"

text \<open>\<^verbatim>\<open>sep.join(parts)\<close>.\<close>

fun join :: "string \<Rightarrow> string list \<Rightarrow> string" where
  "join sep [] = []"
| "join sep [x] = x"
| "join sep (x # y # ys) = x @ sep @ join sep (y # ys)"

text \<open>
  \<^verbatim>\<open>x in RLToolkit\<close> and \<^verbatim>\<open>x in RLFramework\<close>, as the interpreters this code was
  written for (Python 2.7 to 3.7) evaluate them: true for the members of the enumeration,
  false for every other object.
\<close>

fun in_RLToolkit :: "pyval \<Rightarrow> bool" where
  "in_RLToolkit (PyToolkit t) = True"
| "in_RLToolkit _ = False"

fun in_RLFramework :: "pyval \<Rightarrow> bool" where
  "in_RLFramework (PyFramework f) = True"
| "in_RLFramework _ = False"

definition validate_framework_format :: "pyval \<Rightarrow> exn + unit" where
  "validate_framework_format framework =
     (if truthy framework \<and> \<not> in_RLFramework framework then
        Inl (ValueError (''Invalid type: '' @ to_str framework
          @ '', valid RL frameworks types are: ''
          @ ''[[<RLFramework.TENSORFLOW: 'tensorflow'>, <RLFramework.MXNET: 'mxnet'>]]''))
      else Inr ())"

definition validate_toolkit_format :: "pyval \<Rightarrow> exn + unit" where
  "validate_toolkit_format toolkit =
     (if truthy toolkit \<and> \<not> in_RLToolkit toolkit then
        Inl (ValueError (''Invalid type: '' @ to_str toolkit
          @ '', valid RL toolkits types are: ''
          @ ''[[<RLToolkit.COACH: 'coach'>, <RLToolkit.RAY: 'ray'>]]''))
      else Inr ())"

text \<open>
  \<^verbatim>\<open>_validate_images_args\<close>: it raises, or returns after logging at most one warning;
  the result on return is the list of the warnings logged.
\<close>

definition validate_images_args ::
  "pyval \<Rightarrow> string option \<Rightarrow> pyval \<Rightarrow> string option \<Rightarrow> exn + string list" where
  "validate_images_args toolkit toolkit_version framework image_name =
     (case validate_toolkit_format toolkit of
        Inl e \<Rightarrow> Inl e
      | Inr _ \<Rightarrow>
     (case validate_framework_format framework of
        Inl e \<Rightarrow> Inl e
      | Inr _ \<Rightarrow>
          if \<not> truthy_str image_name then
            (let not_found_args =
                   (if \<not> truthy toolkit then [''toolkit''] else [])
                   @ (if \<not> truthy_str toolkit_version then [''toolkit_version''] else [])
                   @ (if \<not> truthy framework then [''framework''] else [])
             in if not_found_args \<noteq> [] then
                  Inl (AttributeError (''Please provide `'' @ join ''`, `'' not_found_args
                    @ ''` or `image_name` parameter.''))
                else Inr [])
          else
            (let found_args =
                   (if truthy toolkit then [''toolkit''] else [])
                   @ (if truthy_str toolkit_version then [''toolkit_version''] else [])
                   @ (if truthy framework then [''framework''] else [])
             in if found_args \<noteq> [] then
                  Inr [''Parameter `image_name` is specified, `'' @ join ''`, `'' found_args
                    @ ''` are going to be ignored when choosing the image.'']
                else Inr [])))"

text \<open>
  \<^verbatim>\<open>_is_combination_supported\<close>: three \<^verbatim>\<open>dict.get\<close> lookups, each tested for its truth
  value. The toolkit and its version may be \<^verbatim>\<open>None\<close> (the tag parser returns them so).
\<close>

definition is_combination_supported :: "string option \<Rightarrow> string option \<Rightarrow> string \<Rightarrow> bool" where
  "is_combination_supported toolkit toolkit_version framework =
     (case (case toolkit of None \<Rightarrow> None | Some t \<Rightarrow> map_of TOOLKIT_FRAMEWORK_VERSION_MAP t) of
        None \<Rightarrow> False
      | Some supported_versions \<Rightarrow>
          if supported_versions \<noteq> [] then
            (case (case toolkit_version of None \<Rightarrow> None | Some v \<Rightarrow> map_of supported_versions v) of
               None \<Rightarrow> False
             | Some supported_frameworks \<Rightarrow>
                 if supported_frameworks \<noteq> []
                    \<and> (case map_of supported_frameworks framework of
                          None \<Rightarrow> False
                        | Some fv \<Rightarrow> fv \<noteq> [])
                 then True else False)
          else False)"

definition validate_toolkit_support :: "string \<Rightarrow> string option \<Rightarrow> string \<Rightarrow> exn + unit" where
  "validate_toolkit_support toolkit toolkit_version framework =
     (if \<not> is_combination_supported (Some toolkit) toolkit_version framework then
        Inl (AttributeError (''Provided `'' @ toolkit @ ''-'' @ to_str (opt_str toolkit_version)
          @ ''` and `'' @ framework @ ''` combination is not supported.''))
      else Inr ())"

text \<open>
  \<^verbatim>\<open>TOOLKIT_FRAMEWORK_VERSION_MAP[toolkit][toolkit_version][framework]\<close>; a missing key
  raises \<^verbatim>\<open>KeyError\<close>.
\<close>

definition table_lookup :: "string \<Rightarrow> string option \<Rightarrow> string \<Rightarrow> exn + string" where
  "table_lookup toolkit toolkit_version framework =
     (case map_of TOOLKIT_FRAMEWORK_VERSION_MAP toolkit of
        None \<Rightarrow> Inl (KeyError toolkit)
      | Some versions \<Rightarrow>
          (case (case toolkit_version of None \<Rightarrow> None | Some v \<Rightarrow> map_of versions v) of
             None \<Rightarrow> Inl (KeyError (to_str (opt_str toolkit_version)))
           | Some frameworks \<Rightarrow>
               (case map_of frameworks framework of
                  None \<Rightarrow> Inl (KeyError framework)
                | Some fv \<Rightarrow> Inr fv)))"

text \<open>
  The support table as the specification gives it, a fixed mapping from toolkit,
  toolkit version and backing framework to the framework version, one line for each of
  its eleven entries, and the lookup in it (a missing version has no entry).
\<close>

definition support_table :: "((RLToolkit \<times> string \<times> RLFramework) \<times> string) list" where
  "support_table =
     [((COACH, ''0.10.1'', TENSORFLOW), ''1.11''),
      ((COACH, ''0.10'', TENSORFLOW), ''1.11''),
      ((COACH, ''0.11.0'', TENSORFLOW), ''1.11''),
      ((COACH, ''0.11.0'', MXNET), ''1.3''),
      ((COACH, ''0.11.1'', TENSORFLOW), ''1.12''),
      ((COACH, ''0.11'', TENSORFLOW), ''1.12''),
      ((COACH, ''0.11'', MXNET), ''1.3''),
      ((RAY, ''0.5.3'', TENSORFLOW), ''1.11''),
      ((RAY, ''0.5'', TENSORFLOW), ''1.11''),
      ((RAY, ''0.6.5'', TENSORFLOW), ''1.12''),
      ((RAY, ''0.6'', TENSORFLOW), ''1.12'')]"

definition spec_framework_version ::
  "RLToolkit \<Rightarrow> string option \<Rightarrow> RLFramework \<Rightarrow> string option" where
  "spec_framework_version t ver f =
     (case ver of None \<Rightarrow> None | Some v \<Rightarrow> map_of support_table (t, v, f))"

text \<open>The attribute \<^verbatim>\<open>.value\<close> of an argument: only members of an enumeration have it.\<close>

fun enum_value :: "pyval \<Rightarrow> exn + string" where
  "enum_value (PyToolkit t) = Inr (toolkit_value t)"
| "enum_value (PyFramework f) = Inr (framework_value f)"
| "enum_value v = Inl (AttributeError ''the object has no attribute value'')"

record metric_definition =
  metric_name :: string
  metric_regex :: string

definition default_metric_definitions :: "pyval \<Rightarrow> metric_definition list option" where
  "default_metric_definitions toolkit =
     (if toolkit = PyToolkit COACH then
        Some [\<lparr>metric_name = ''reward-training'', metric_regex = ''^Training>.*Total reward=(.*?),''\<rparr>,
              \<lparr>metric_name = ''reward-testing'', metric_regex = ''^Testing>.*Total reward=(.*?),''\<rparr>]
      else if toolkit = PyToolkit RAY then
        (let float_regex = ''[-+]?[0-9]*[.]?[0-9]+([eE][-+]?[0-9]+)?'' in
         Some [\<lparr>metric_name = ''episode_reward_mean'',
                 metric_regex = ''episode_reward_mean: ('' @ float_regex @ '')''\<rparr>,
               \<lparr>metric_name = ''episode_reward_max'',
                 metric_regex = ''episode_reward_max: ('' @ float_regex @ '')''\<rparr>])
      else None)"

text \<open>
  The estimator object. The four toolkit attributes are set only when no image is given
  (\<open>None\<close> stands for an attribute that was never set). \<^verbatim>\<open>Framework.__init__\<close> is not
  among the sources: it is the parameter \<open>super_init\<close>, which receives the
  \<^verbatim>\<open>image_name\<close> and the \<^verbatim>\<open>metric_definitions\<close> that \<^verbatim>\<open>RLEstimator.__init__\<close>
  passes to it (the other arguments go through unchanged) and raises or returns the
  state of the base class; the two attributes it stores are kept beside that state.
\<close>

record 'b RLEstimator =
  est_toolkit :: "string option"
  est_toolkit_version :: "string option"
  est_framework :: "string option"
  est_framework_version :: "string option"
  est_image_name :: "string option"
  est_metric_definitions :: "metric_definition list option"
  est_base :: 'b

fun falsy_list :: "'a list option \<Rightarrow> bool" where
  "falsy_list None = True"
| "falsy_list (Some xs) = (xs = [])"

text \<open>
  \<^verbatim>\<open>RLEstimator.__init__\<close>: the result is the exception raised or the object, with the
  warnings this class logged.
\<close>

definition RLEstimator_init ::
  "(string option \<Rightarrow> metric_definition list option \<Rightarrow> exn + 'b)
    \<Rightarrow> pyval \<Rightarrow> string option \<Rightarrow> pyval \<Rightarrow> string option \<Rightarrow> metric_definition list option
    \<Rightarrow> (exn + 'b RLEstimator) \<times> string list" where
  "RLEstimator_init super_init toolkit toolkit_version framework image_name metric_definitions =
     (case validate_images_args toolkit toolkit_version framework image_name of
        Inl e \<Rightarrow> (Inl e, [])
      | Inr warnings \<Rightarrow>
          if \<not> truthy_str image_name then
            (case enum_value toolkit of
               Inl e \<Rightarrow> (Inl e, warnings)
             | Inr tv \<Rightarrow>
            (case enum_value framework of
               Inl e \<Rightarrow> (Inl e, warnings)
             | Inr fv \<Rightarrow>
            (case validate_toolkit_support tv toolkit_version fv of
               Inl e \<Rightarrow> (Inl e, warnings)
             | Inr _ \<Rightarrow>
            (case table_lookup tv toolkit_version fv of
               Inl e \<Rightarrow> (Inl e, warnings)
             | Inr fwv \<Rightarrow>
                 (let md = (if falsy_list metric_definitions
                            then default_metric_definitions toolkit
                            else metric_definitions)
                  in case super_init image_name md of
                       Inl e \<Rightarrow> (Inl e, warnings)
                     | Inr b \<Rightarrow>
                         (Inr \<lparr>est_toolkit = Some tv, est_toolkit_version = toolkit_version,
                                est_framework = Some fv, est_framework_version = Some fwv,
                                est_image_name = image_name, est_metric_definitions = md,
                                est_base = b\<rparr>,
                          warnings))))))
          else
            (case super_init image_name metric_definitions of
               Inl e \<Rightarrow> (Inl e, warnings)
             | Inr b \<Rightarrow>
                 (Inr \<lparr>est_toolkit = None, est_toolkit_version = None,
                        est_framework = None, est_framework_version = None,
                        est_image_name = image_name,
                        est_metric_definitions = metric_definitions,
                        est_base = b\<rparr>,
                  warnings)))"

text \<open>
  \<^verbatim>\<open>_image_version\<close> and \<^verbatim>\<open>_image_framework\<close>; reading an attribute that was never set
  raises \<^verbatim>\<open>AttributeError\<close>.
\<close>

definition image_version :: "'b RLEstimator \<Rightarrow> exn + string" where
  "image_version self =
     (case est_toolkit self of
        None \<Rightarrow> Inl (AttributeError ''toolkit'')
      | Some t \<Rightarrow> Inr (t @ to_str (opt_str (est_toolkit_version self))))"

definition image_framework :: "'b RLEstimator \<Rightarrow> exn + string" where
  "image_framework self =
     (case est_framework self of
        None \<Rightarrow> Inl (AttributeError ''framework'')
      | Some f \<Rightarrow> Inr (''rl-'' @ f))"

text \<open>
  \<^verbatim>\<open>train_image\<close>. \<^verbatim>\<open>fw_utils.create_image_uri\<close> is not among the sources: it is the
  parameter \<open>create_image_uri\<close>, applied to the framework name, the version and the
  Python version (the region and the instance type are the estimator's own).
\<close>

definition train_image ::
  "(string \<Rightarrow> string \<Rightarrow> string \<Rightarrow> string) \<Rightarrow> 'b RLEstimator \<Rightarrow> exn + string" where
  "train_image create_image_uri self =
     (case (if truthy_str (est_image_name self) then est_image_name self else None) of
        Some uri \<Rightarrow> Inr uri
      | None \<Rightarrow>
          (case image_framework self of
             Inl e \<Rightarrow> Inl e
           | Inr fw \<Rightarrow>
               (case image_version self of
                  Inl e \<Rightarrow> Inl e
                | Inr v \<Rightarrow> Inr (create_image_uri fw v PYTHON_VERSION))))"

text \<open>
  Modelled from the spec: the tag that \<^verbatim>\<open>fw_utils.create_image_uri\<close> (not among the
  sources) gives the image: the version it is passed, suffixed with a device and a
  Python-version segment.
\<close>

definition create_image_tag :: "string \<Rightarrow> string \<Rightarrow> string \<Rightarrow> string" where
  "create_image_tag version device py_version = version @ ''-'' @ device @ ''-'' @ py_version"

definition would_be_image_tag :: "'b RLEstimator \<Rightarrow> string \<Rightarrow> exn + string" where
  "would_be_image_tag self device =
     (case image_version self of
        Inl e \<Rightarrow> Inl e
      | Inr v \<Rightarrow> Inr (create_image_tag v device PYTHON_VERSION))"

text \<open>
  \<^verbatim>\<open>hyperparameters\<close>: the mapping of the base class with two more entries, each value
  JSON-encoded. The base class's mapping and its \<^verbatim>\<open>output_path\<close> are read from the
  state of the base class; the key \<^verbatim>\<open>SAGEMAKER_OUTPUT_LOCATION\<close> is a constant of
  \<^verbatim>\<open>sagemaker.model\<close>, a parameter here.
\<close>

definition json_encode_opt :: "string option \<Rightarrow> string" where
  "json_encode_opt v = (case v of None \<Rightarrow> ''null'' | Some s \<Rightarrow> json_dumps s)"

definition hyperparameters ::
  "string \<Rightarrow> ('b \<Rightarrow> (string \<rightharpoonup> string)) \<Rightarrow> ('b \<Rightarrow> string option) \<Rightarrow> 'b RLEstimator
    \<Rightarrow> (string \<rightharpoonup> string)" where
  "hyperparameters SAGEMAKER_OUTPUT_LOCATION super_hyperparameters output_path self =
     (super_hyperparameters (est_base self))
       (SAGEMAKER_OUTPUT_LOCATION \<mapsto> json_encode_opt (output_path (est_base self)),
        SAGEMAKER_ESTIMATOR \<mapsto> json_dumps SAGEMAKER_ESTIMATOR_VALUE)"

subsection \<open>Reconstruction from a job description\<close>

text \<open>\<^verbatim>\<open>RLToolkit(value)\<close> and \<^verbatim>\<open>RLFramework(value)\<close>: the member with that value.\<close>

definition RLToolkit_of :: "string option \<Rightarrow> exn + RLToolkit" where
  "RLToolkit_of v =
     (if v = Some ''coach'' then Inr COACH
      else if v = Some ''ray'' then Inr RAY
      else Inl (ValueError (to_str (opt_str v) @ '' is not a valid RLToolkit'')))"

definition RLFramework_of :: "string \<Rightarrow> exn + RLFramework" where
  "RLFramework_of v =
     (if v = ''tensorflow'' then Inr TENSORFLOW
      else if v = ''mxnet'' then Inr MXNET
      else Inl (ValueError (v @ '' is not a valid RLFramework'')))"

definition wrong_framework_error :: "pyval \<Rightarrow> exn" where
  "wrong_framework_error training_job_name =
     ValueError (''Training job: '' @ to_str training_job_name
       @ '' didn't use image for requested framework'')"

text \<open>
  \<^verbatim>\<open>RLEstimator._prepare_init_params_from_job_description\<close>. The method of the base
  class and \<^verbatim>\<open>fw_utils.framework_name_from_image\<close> are not among the sources:
  \<open>init_params\<close> is what the base class returns for the job description, and
  \<open>framework_name_from_image\<close> is a parameter that returns the four components
  (framework, Python version, tag, script mode), each possibly \<^verbatim>\<open>None\<close>.
\<close>

definition RLEstimator_prepare_init_params_from_job_description ::
  "(string \<Rightarrow> string option \<times> string option \<times> string option \<times> string option)
    \<Rightarrow> (string \<rightharpoonup> pyval) \<Rightarrow> exn + (string \<rightharpoonup> pyval)" where
  "RLEstimator_prepare_init_params_from_job_description framework_name_from_image init_params =
     (case init_params ''image'' of
        None \<Rightarrow> Inl (KeyError ''image'')
      | Some (PyStr image_name) \<Rightarrow>
          (let init_params = init_params(''image'' := None);
               (framework, _, tag, _) = framework_name_from_image image_name
           in case framework of
                None \<Rightarrow> Inr (init_params(''image_name'' \<mapsto> PyStr image_name))
              | Some fw \<Rightarrow>
                  if fw = [] then Inr (init_params(''image_name'' \<mapsto> PyStr image_name))
                  else
                    (case tag of
                       None \<Rightarrow> Inl (TypeError ''expected string or bytes-like object'')
                     | Some t \<Rightarrow>
                         (let (toolkit, toolkit_version) = toolkit_and_version_from_tag t
                          in if \<not> is_combination_supported toolkit toolkit_version fw then
                               (case init_params ''base_job_name'' of
                                  None \<Rightarrow> Inl (KeyError ''base_job_name'')
                                | Some training_job_name \<Rightarrow>
                                    Inl (wrong_framework_error training_job_name))
                             else
                               (case RLToolkit_of toolkit of
                                  Inl e \<Rightarrow> Inl e
                                | Inr tk \<Rightarrow>
                                    (case RLFramework_of fw of
                                       Inl e \<Rightarrow> Inl e
                                     | Inr f \<Rightarrow>
                                         Inr (init_params
                                           (''toolkit'' \<mapsto> PyToolkit tk,
                                            ''toolkit_version'' \<mapsto> opt_str toolkit_version,
                                            ''framework'' \<mapsto> PyFramework f)))))))
      | Some _ \<Rightarrow> Inl (TypeError ''expected string or bytes-like object''))"

section \<open>The MXNet estimator (\<^verbatim>\<open>mxnet/estimator.py\<close>)\<close>

text \<open>
  Python's \<^verbatim>\<open><\<close> on sequences: the first pair of unequal elements decides, and a proper
  prefix is smaller. On strings the elements are code points; on lists of strings they
  are strings.
\<close>

fun py_seq_lt :: "('a \<Rightarrow> 'a \<Rightarrow> bool) \<Rightarrow> 'a list \<Rightarrow> 'a list \<Rightarrow> bool" where
  "py_seq_lt lt [] [] = False"
| "py_seq_lt lt [] (y # ys) = True"
| "py_seq_lt lt (x # xs) [] = False"
| "py_seq_lt lt (x # xs) (y # ys) = (if x = y then py_seq_lt lt xs ys else lt x y)"

definition char_lt :: "char \<Rightarrow> char \<Rightarrow> bool" where
  "char_lt a b = ((of_char a :: nat) < of_char b)"

definition str_lt :: "string \<Rightarrow> string \<Rightarrow> bool" where
  "str_lt = py_seq_lt char_lt"

definition str_list_lt :: "string list \<Rightarrow> string list \<Rightarrow> bool" where
  "str_list_lt = py_seq_lt str_lt"

text \<open>\<^verbatim>\<open>s.split(sep)\<close> for a separator of one character.\<close>

fun split :: "char \<Rightarrow> string \<Rightarrow> string list" where
  "split sep [] = [[]]"
| "split sep (c # cs) =
     (if c = sep then [] # split sep cs
      else (case split sep cs of [] \<Rightarrow> [[c]] | p # ps \<Rightarrow> (c # p) # ps))"

definition framework_name :: string where
  "framework_name = ''mxnet''"

definition LOWEST_SCRIPT_MODE_VERSION :: "string list" where
  "LOWEST_SCRIPT_MODE_VERSION = [''1'', ''3'']"

text \<open>
  \<^verbatim>\<open>LAUNCH_PS_ENV_NAME\<close> is a constant of the base class \<^verbatim>\<open>Framework\<close>, which is not
  among the sources.
\<close>

definition LAUNCH_PS_ENV_NAME :: string where
  "LAUNCH_PS_ENV_NAME = ''sagemaker_parameter_server_enabled''"

text \<open>
  \<^verbatim>\<open>_configure_distribution\<close>, on the framework version and the hyperparameter mapping
  of the object; \<^verbatim>\<open>distributions\<close> is \<^verbatim>\<open>None\<close> or a dictionary of dictionaries.
\<close>

definition configure_distribution ::
  "string \<Rightarrow> (string \<rightharpoonup> (string \<rightharpoonup> pyval)) option \<Rightarrow> (string \<rightharpoonup> pyval)
    \<Rightarrow> exn + (string \<rightharpoonup> pyval)" where
  "configure_distribution framework_version distributions hps =
     (case distributions of
        None \<Rightarrow> Inr hps
      | Some d \<Rightarrow>
          if str_list_lt (split CHR ''.'' framework_version) LOWEST_SCRIPT_MODE_VERSION then
            Inl (ValueError (''The distributions option is valid for only versions ''
              @ join ''.'' LOWEST_SCRIPT_MODE_VERSION @ '' and higher''))
          else
            (case d ''parameter_server'' of
               None \<Rightarrow> Inr hps
             | Some ps \<Rightarrow>
                 (let enabled = (case ps ''enabled'' of None \<Rightarrow> PyBool False | Some e \<Rightarrow> e)
                  in Inr (hps(LAUNCH_PS_ENV_NAME \<mapsto> enabled)))))"

record MXNet =
  mx_framework_version :: string
  mx_py_version :: string
  mx_hyperparameters :: "string \<rightharpoonup> pyval"

text \<open>
  \<^verbatim>\<open>MXNet.__init__\<close>. The constructor of the base class is not among the sources:
  \<open>super_init\<close> is its outcome, an exception or the hyperparameter mapping it stores.
  The default version \<^verbatim>\<open>MXNET_VERSION\<close> of \<^verbatim>\<open>sagemaker.mxnet.defaults\<close> is not among
  the sources either and is a parameter. The two warnings the constructor may log are
  left out.
\<close>

definition MXNet_init ::
  "string \<Rightarrow> (exn + (string \<rightharpoonup> pyval)) \<Rightarrow> string \<Rightarrow> string option
    \<Rightarrow> (string \<rightharpoonup> (string \<rightharpoonup> pyval)) option \<Rightarrow> exn + MXNet" where
  "MXNet_init MXNET_VERSION super_init py_version framework_version distributions =
     (let fv = (if truthy_str framework_version
                then (case framework_version of Some v \<Rightarrow> v | None \<Rightarrow> MXNET_VERSION)
                else MXNET_VERSION)
      in case super_init of
           Inl e \<Rightarrow> Inl e
         | Inr hps \<Rightarrow>
             (case configure_distribution fv distributions hps of
                Inl e \<Rightarrow> Inl e
              | Inr hps' \<Rightarrow>
                  Inr \<lparr>mx_framework_version = fv, mx_py_version = py_version,
                        mx_hyperparameters = hps'\<rparr>))"

text \<open>
  \<^verbatim>\<open>MXNet._prepare_init_params_from_job_description\<close>, with the parameters of the RL
  one and \<^verbatim>\<open>fw_utils.framework_version_from_tag\<close>, which is not among the sources
  either: a parameter that raises or returns a version or \<^verbatim>\<open>None\<close>.
\<close>

definition MXNet_prepare_init_params_from_job_description ::
  "(string \<Rightarrow> string option \<times> string option \<times> string option \<times> string option)
    \<Rightarrow> (string option \<Rightarrow> exn + string option)
    \<Rightarrow> (string \<rightharpoonup> pyval) \<Rightarrow> exn + (string \<rightharpoonup> pyval)" where
  "MXNet_prepare_init_params_from_job_description framework_name_from_image
       framework_version_from_tag init_params =
     (case init_params ''image'' of
        None \<Rightarrow> Inl (KeyError ''image'')
      | Some (PyStr image_name) \<Rightarrow>
          (let init_params = init_params(''image'' := None);
               (framework, py_version, tag, _) = framework_name_from_image image_name
           in if \<not> truthy_str framework then
                Inr (init_params(''image_name'' \<mapsto> PyStr image_name))
              else
                (let init_params = init_params(''py_version'' \<mapsto> opt_str py_version)
                 in case (if tag = Some ''1.0'' then Inr (Some ''0.12'')
                          else framework_version_from_tag tag) of
                      Inl e \<Rightarrow> Inl e
                    | Inr fv \<Rightarrow>
                        (let init_params = init_params(''framework_version'' \<mapsto> opt_str fv)
                         in case init_params ''base_job_name'' of
                              None \<Rightarrow> Inl (KeyError ''base_job_name'')
                            | Some training_job_name \<Rightarrow>
                                if framework \<noteq> Some framework_name then
                                  Inl (wrong_framework_error training_job_name)
                                else Inr init_params)))
      | Some _ \<Rightarrow> Inl (TypeError ''expected string or bytes-like object''))"

section \<open>Theorems\<close>

subsection \<open>Parameter ranges\<close>

text \<open>
  C9: for a continuous or integer range built from \<open>(lo, hi)\<close>, \<open>is_valid v\<close> is true exactly
  when \<open>lo \<le> v \<le> hi\<close>; so it is true on the closed interval and false below \<open>lo\<close> and
  above \<open>hi\<close>.
\<close>

theorem is_valid_iff_in_closed_interval:
  fixes lo hi v :: "'a::linorder"
  shows "(is_valid (ParameterRange_init lo hi st) v \<longleftrightarrow> lo \<le> v \<and> v \<le> hi)
    \<and> (lo \<le> v \<and> v \<le> hi \<longrightarrow> is_valid (ParameterRange_init lo hi st) v)
    \<and> (v < lo \<or> hi < v \<longrightarrow> \<not> is_valid (ParameterRange_init lo hi st) v)"
  by (auto simp: is_valid_def ParameterRange_init_def)

theorem is_valid_iff_in_closed_interval_witness:
  "is_valid (ParameterRange_init (1::int) 10 ''Auto'') 10
   \<and> is_valid (ParameterRange_init (1::int) 10 ''Auto'') 1
   \<and> \<not> is_valid (ParameterRange_init (1::int) 10 ''Auto'') 11
   \<and> \<not> is_valid (ParameterRange_init (1::int) 10 ''Auto'') 0"
  using is_valid_iff_in_closed_interval [where lo = "1::int" and hi = 10 and st = "''Auto''" and v = 10]
    is_valid_iff_in_closed_interval [where lo = "1::int" and hi = 10 and st = "''Auto''" and v = 1]
    is_valid_iff_in_closed_interval [where lo = "1::int" and hi = 10 and st = "''Auto''" and v = 11]
    is_valid_iff_in_closed_interval [where lo = "1::int" and hi = 10 and st = "''Auto''" and v = 0]
  by simp

text \<open>
  C8: the values list of a constructed \<^verbatim>\<open>CategoricalParameter\<close> holds the string
  coercion of each input element, in the input's order and with duplicates kept. It is as
  long as the input list, so it is non-empty exactly when the input list is; one object
  that is not a list gives a list of one element.
\<close>

theorem categorical_values_follow_input:
  "cat_values (CategoricalParameter_init (ValuesList vs)) = map to_str vs
   \<and> length (cat_values (CategoricalParameter_init (ValuesList vs))) = length vs
   \<and> (cat_values (CategoricalParameter_init (ValuesList vs)) = [] \<longleftrightarrow> vs = [])
   \<and> cat_values (CategoricalParameter_init (ValuesList (v # v # vs)))
       = to_str v # to_str v # map to_str vs
   \<and> cat_values (CategoricalParameter_init (SingleValue v)) = [to_str v]"
  by (simp add: CategoricalParameter_init_def)

theorem categorical_values_follow_input_witness:
  "cat_values (CategoricalParameter_init (ValuesList [PyStr ''a'', PyStr ''a'', PyBool True]))
     = [''a'', ''a'', ''True'']
   \<and> cat_values (CategoricalParameter_init (SingleValue (PyStr ''a''))) = [''a'']"
  using categorical_values_follow_input [of "[PyBool True]" "PyStr ''a''"]
  by simp

text \<open>
  C8, as stated, fails on the empty list: the constructor accepts it and the values list
  is empty.
\<close>

theorem categorical_empty_list_counterexample:
  "cat_values (CategoricalParameter_init (ValuesList [])) = []"
  by (simp add: CategoricalParameter_init_def)

subsection \<open>JSON ranges\<close>

lemma hexval_hexdigit: "k < 16 \<Longrightarrow> hexval (hexdigit k) = Some k"
proof -
  assume "k < 16"
  then have "k = 0 \<or> k = 1 \<or> k = 2 \<or> k = 3 \<or> k = 4 \<or> k = 5 \<or> k = 6 \<or> k = 7 \<or> k = 8
      \<or> k = 9 \<or> k = 10 \<or> k = 11 \<or> k = 12 \<or> k = 13 \<or> k = 14 \<or> k = 15"
    by arith
  then show ?thesis
    by (elim disjE) (simp_all add: hexval_def hexdigit_def)
qed

lemma unhex4_hex4:
  assumes "n < 256"
  shows "\<exists>a b c d. hex4 n = [a, b, c, d] \<and> unhex4 a b c d = Some n"
proof -
  have a: "n div 4096 mod 16 = 0" and b: "n div 256 mod 16 = 0"
    using assms by simp_all
  have d: "n div 16 mod 16 < 16" and e: "n mod 16 < 16" and z: "(0::nat) < 16"
    by simp_all
  have f: "n div 16 mod 16 = n div 16"
    using assms by simp
  have g: "16 * (n div 16) + n mod 16 = n"
    by simp
  have "unhex4 (hexdigit 0) (hexdigit 0) (hexdigit (n div 16 mod 16)) (hexdigit (n mod 16))
      = Some (4096 * 0 + 256 * 0 + 16 * (n div 16 mod 16) + n mod 16)"
    unfolding unhex4_def hexval_hexdigit [OF d] hexval_hexdigit [OF e] hexval_hexdigit [OF z]
    by simp
  then show ?thesis
    unfolding hex4_def a b f using g by simp
qed

lemma scanstring_unicode_escape:
  "scanstring (CHR 0x5C # CHR ''u'' # hex4 (of_char c) @ rest) = cons_result c (scanstring rest)"
proof -
  have "(of_char c :: nat) < 256" by simp
  from unhex4_hex4 [OF this] obtain h1 h2 h3 h4
    where h: "hex4 (of_char c) = [h1, h2, h3, h4]" and u: "unhex4 h1 h2 h3 h4 = Some (of_char c)"
    by blast
  show ?thesis
    unfolding h by (simp add: u)
qed

lemma scanstring_escape_char:
  "scanstring (escape_char c @ rest) = cons_result c (scanstring rest)"
proof -
  let ?special = "{CHR 0x22, CHR 0x5C, CHR 0x0A, CHR 0x0D, CHR 0x09, CHR 0x08, CHR 0x0C}"
  consider (special) "c \<in> ?special"
    | (plain) "c \<notin> ?special" "32 \<le> (of_char c :: nat) \<and> (of_char c :: nat) \<le> 126"
    | (uni) "c \<notin> ?special" "\<not> (32 \<le> (of_char c :: nat) \<and> (of_char c :: nat) \<le> 126)"
    by blast
  then show ?thesis
  proof cases
    case special
    then show ?thesis by (auto simp: escape_char_def unescape_def)
  next
    case plain
    then show ?thesis by (auto simp: escape_char_def)
  next
    case uni
    then have "escape_char c = CHR 0x5C # CHR ''u'' # hex4 (of_char c)"
      by (simp add: escape_char_def)
    then show ?thesis
      by (simp add: scanstring_unicode_escape del: scanstring.simps)
  qed
qed

lemma scanstring_escaped:
  "scanstring (concat (map escape_char s) @ CHR 0x22 # rest) = Some (s, rest)"
proof (induction s)
  case Nil
  show ?case by simp
next
  case (Cons c s)
  then show ?case
    by (simp add: scanstring_escape_char del: scanstring.simps)
qed

lemma json_loads_json_dumps: "json_loads (json_dumps s) = Some (PyStr s)"
  by (simp add: json_loads_def json_dumps_def scan_once_def is_json_ws_def scanstring_escaped)


text \<open>
  C3: every element of \<^verbatim>\<open>as_json_range(name)["Values"]\<close> is a valid JSON document, and
  decoding the elements gives the string coercions of the input values, as strings; they
  are the input values themselves when the input values are strings.
\<close>

theorem as_json_range_decodes_to_coerced_strings:
  "map json_loads (Values (as_json_range (CategoricalParameter_init (ValuesList vs)) name))
     = map (\<lambda>v. Some (PyStr (to_str v))) vs
   \<and> map json_loads (Values (as_json_range (CategoricalParameter_init (SingleValue v)) name))
     = [Some (PyStr (to_str v))]
   \<and> map json_loads
        (Values (as_json_range (CategoricalParameter_init (ValuesList (map PyStr ss))) name))
     = map (\<lambda>s. Some (PyStr s)) ss"
  by (simp add: as_json_range_def CategoricalParameter_init_def json_loads_json_dumps comp_def)

theorem as_json_range_decodes_to_coerced_strings_witness:
  "map json_loads
     (Values (as_json_range (CategoricalParameter_init (ValuesList [PyBool True, PyStr ''a'']))
        ''lr''))
     = [Some (PyStr ''True''), Some (PyStr ''a'')]"
  using as_json_range_decodes_to_coerced_strings [of "[PyBool True, PyStr ''a'']" "''lr''"]
  by simp

text \<open>
  C3, as stated, fails on an integer input: the value \<open>1\<close> is stored as the string
  \<^verbatim>\<open>"1"\<close>, encoded as a JSON string, and decodes to a string, not to the integer.
\<close>

theorem as_json_range_integer_counterexample:
  "map json_loads
     (Values (as_json_range (CategoricalParameter_init (ValuesList [PyInt 1])) ''lr''))
     = [Some (PyStr ''1'')]
   \<and> map json_loads
     (Values (as_json_range (CategoricalParameter_init (ValuesList [PyInt 1])) ''lr''))
     \<noteq> [Some (PyInt 1)]"
  by (simp add: as_json_range_def CategoricalParameter_init_def json_loads_json_dumps
      int_to_dec_def nat_to_dec.simps digit_char_def)

subsection \<open>The tag parser\<close>

lemma match_literal_append: "match_literal p (p @ r) = Some r"
  by (induction p) auto

lemma match_literal_iff: "match_literal p s = Some r \<longleftrightarrow> s = p @ r"
  by (induction p s rule: match_literal.induct) auto

lemma lit_iff: "lit p k s \<longleftrightarrow> (\<exists>r. s = p @ r \<and> k r)"
  by (auto simp: lit_def match_literal_iff match_literal_append split: option.splits)

lemma tail_match_iff:
  "tail_match s \<longleftrightarrow> (\<exists>sfx \<in> set device_py_suffixes. s = sfx \<or> s = sfx @ [CHR 0x0A])"
  unfolding tail_match_def alt2_def lit_iff at_end_def device_py_suffixes_def
  by auto

lemma tail_match_shape:
  "tail_match r \<Longrightarrow> r \<noteq> [] \<and> length r = (if last r = CHR 0x0A then 9 else 8)"
  unfolding tail_match_iff device_py_suffixes_def by auto

lemma tail_split_unique:
  assumes "m1 @ r1 = m2 @ r2" and "tail_match r1" and "tail_match r2"
  shows "m1 = m2 \<and> r1 = r2"
proof -
  from tail_match_shape [OF assms(2)] tail_match_shape [OF assms(3)]
  have ne: "r1 \<noteq> []" "r2 \<noteq> []"
    and l1: "length r1 = (if last r1 = CHR 0x0A then 9 else 8)"
    and l2: "length r2 = (if last r2 = CHR 0x0A then 9 else 8)"
    by simp_all
  have "last r1 = last (m1 @ r1)" using ne by simp
  also have "\<dots> = last (m2 @ r2)" using assms(1) by simp
  also have "\<dots> = last r2" using ne by simp
  finally have "length r1 = length r2" using l1 l2 by simp
  with assms(1) show ?thesis by simp
qed

lemma star_sound:
  "star p k s = Some (m, x) \<Longrightarrow> \<exists>r. s = m @ r \<and> list_all p m \<and> k r = Some x"
  by (induction s arbitrary: m) (auto split: if_splits option.splits)

lemma star_complete:
  "list_all p m \<Longrightarrow> k r = Some x \<Longrightarrow> star p k (m @ r) \<noteq> None"
proof (induction m)
  case Nil
  then show ?case by (cases r) (auto split: option.splits)
next
  case (Cons a m)
  then show ?case by (auto split: option.splits)
qed

lemma version_match_iff:
  "version_match s = Some v \<longleftrightarrow> (\<exists>r. s = v @ r \<and> version_shape v \<and> tail_match r)"
proof
  assume a: "version_match s = Some v"
  then obtain d cs where s: "s = d # cs" and d: "is_digit d"
    by (cases s) (auto simp: version_match_def split: if_splits)
  from a s d obtain m x
    where st: "star not_newline (\<lambda>r. if tail_match r then Some () else None) cs = Some (m, x)"
      and v: "v = d # m"
    by (auto simp: version_match_def split: option.splits)
  from star_sound [OF st] obtain r where "cs = m @ r" "list_all not_newline m" "tail_match r"
    by (auto split: if_splits)
  then show "\<exists>r. s = v @ r \<and> version_shape v \<and> tail_match r"
    using s d v by (auto simp: version_shape_def)
next
  assume "\<exists>r. s = v @ r \<and> version_shape v \<and> tail_match r"
  then obtain r d m where s: "s = v @ r" and v: "v = d # m" and d: "is_digit d"
    and m: "list_all not_newline m" and r: "tail_match r"
    by (cases v) (auto simp: version_shape_def)
  let ?k = "\<lambda>r. if tail_match r then Some () else None"
  have "star not_newline ?k (m @ r) \<noteq> None"
    using star_complete [OF m, of ?k r "()"] r by simp
  then obtain m' x where st: "star not_newline ?k (m @ r) = Some (m', x)"
    by auto
  from star_sound [OF st] obtain r' where "m @ r = m' @ r'" "tail_match r'"
    by (auto split: if_splits)
  with r have "m' = m" using tail_split_unique [of m r m' r'] by simp
  with st show "version_match s = Some v"
    using s v d by (simp add: version_match_def)
qed

lemma version_match_digit:
  "version_match r = Some v \<Longrightarrow> \<exists>d t. r = d # t \<and> is_digit d"
  by (cases r) (auto simp: version_match_def split: if_splits)

lemma letters_split_unique:
  assumes "l1 @ d1 # t1 = l2 @ d2 # t2"
    and "list_all (\<lambda>c. \<not> is_digit c) l1" and "list_all (\<lambda>c. \<not> is_digit c) l2"
    and "is_digit d1" and "is_digit d2"
  shows "l1 = l2 \<and> d1 # t1 = d2 # t2"
  using assms
proof (induction l1 arbitrary: l2)
  case Nil
  then show ?case by (cases l2) auto
next
  case (Cons a l1)
  then show ?case by (cases l2) auto
qed

lemma star_letters_iff:
  assumes nd: "\<And>c. p c \<Longrightarrow> \<not> is_digit c"
  shows "star p version_match s = Some (l, v)
    \<longleftrightarrow> (\<exists>r. s = l @ r \<and> list_all p l \<and> version_match r = Some v)"
proof
  assume "star p version_match s = Some (l, v)"
  from star_sound [OF this] show "\<exists>r. s = l @ r \<and> list_all p l \<and> version_match r = Some v"
    by blast
next
  assume "\<exists>r. s = l @ r \<and> list_all p l \<and> version_match r = Some v"
  then obtain r where s: "s = l @ r" and l: "list_all p l" and r: "version_match r = Some v"
    by blast
  from star_complete [of p l version_match r v] l r s obtain l' v' where st: "star p version_match s = Some (l', v')"
    by auto
  from star_sound [OF st] obtain r' where s': "s = l' @ r'" and l': "list_all p l'"
    and r': "version_match r' = Some v'"
    by blast
  from version_match_digit [OF r] obtain d t where rd: "r = d # t" "is_digit d" by blast
  from version_match_digit [OF r'] obtain d' t' where rd': "r' = d' # t'" "is_digit d'" by blast
  have "list_all (\<lambda>c. \<not> is_digit c) l" "list_all (\<lambda>c. \<not> is_digit c) l'"
    using l l' nd by (auto simp: list_all_iff)
  with s s' rd rd' have "l = l' \<and> r = r'"
    using letters_split_unique [of l d t l' d' t'] by simp
  with st r r' show "star p version_match s = Some (l, v)" by simp
qed

lemma upper_not_digit: "is_upper c \<Longrightarrow> \<not> is_digit c"
  by (simp add: is_upper_def is_digit_def)

lemma lower_not_digit: "is_lower c \<Longrightarrow> \<not> is_digit c"
  by (simp add: is_lower_def is_digit_def)

lemma tag_pattern_newline_iff:
  "tag_pattern_newline l v s
    \<longleftrightarrow> letters_shape l \<and> (\<exists>r. s = l @ r \<and> version_match r = Some v)"
proof -
  have "(\<exists>r. s = l @ r \<and> version_match r = Some v)
      \<longleftrightarrow> version_shape v \<and> (\<exists>t. s = l @ v @ t \<and> tail_match t)"
    by (auto simp: version_match_iff)
  also have "\<dots> \<longleftrightarrow> version_shape v
      \<and> (\<exists>sfx \<in> set device_py_suffixes. s = l @ v @ sfx \<or> s = l @ v @ sfx @ [CHR 0x0A])"
    by (auto simp: tail_match_iff)
  finally have m: "(\<exists>r. s = l @ r \<and> version_match r = Some v)
      \<longleftrightarrow> version_shape v
      \<and> (\<exists>sfx \<in> set device_py_suffixes. s = l @ v @ sfx \<or> s = l @ v @ sfx @ [CHR 0x0A])" .
  show ?thesis
    unfolding m tag_pattern_newline_def tag_pattern_def by auto
qed

lemma parser_result_iff:
  "toolkit_and_version_from_tag s = (Some l, Some v) \<longleftrightarrow> tag_pattern_newline l v s"
proof -
  note up = star_letters_iff [of is_upper, OF upper_not_digit]
  note lo = star_letters_iff [of is_lower, OF lower_not_digit]
  show ?thesis
  proof
    assume "toolkit_and_version_from_tag s = (Some l, Some v)"
    then have "star is_upper version_match s = Some (l, v)
        \<or> star is_lower version_match s = Some (l, v)"
      by (auto simp: toolkit_and_version_from_tag_def split: option.splits)
    then show "tag_pattern_newline l v s"
      using up [of s l v] lo [of s l v]
      unfolding tag_pattern_newline_iff letters_shape_def by blast
  next
    assume "tag_pattern_newline l v s"
    then obtain r where ls: "list_all is_upper l \<or> list_all is_lower l"
      and s: "s = l @ r" and r: "version_match r = Some v"
      unfolding tag_pattern_newline_iff letters_shape_def by blast
    show "toolkit_and_version_from_tag s = (Some l, Some v)"
    proof (cases "star is_upper version_match s")
      case (Some a)
      obtain l' v' where a: "a = (l', v')" by (cases a)
      with Some up [of s l' v'] obtain r' where s': "s = l' @ r'" and l': "list_all is_upper l'"
        and r': "version_match r' = Some v'"
        by blast
      from version_match_digit [OF r] obtain d t where rd: "r = d # t" "is_digit d" by blast
      from version_match_digit [OF r'] obtain d' t' where rd': "r' = d' # t'" "is_digit d'"
        by blast
      have "list_all (\<lambda>c. \<not> is_digit c) l" "list_all (\<lambda>c. \<not> is_digit c) l'"
        using ls l' upper_not_digit lower_not_digit by (auto simp: list_all_iff)
      with s s' rd rd' have "l = l' \<and> r = r'"
        using letters_split_unique [of l d t l' d' t'] by simp
      with Some a r r' show ?thesis
        by (simp add: toolkit_and_version_from_tag_def)
    next
      case None
      with up [of s l v] s r have "\<not> list_all is_upper l" by auto
      with ls have "list_all is_lower l" by simp
      with lo [of s l v] s r have "star is_lower version_match s = Some (l, v)" by auto
      with None show ?thesis
        by (simp add: toolkit_and_version_from_tag_def)
    qed
  qed
qed

lemma parser_total:
  "toolkit_and_version_from_tag s = (None, None)
    \<or> (\<exists>l v. toolkit_and_version_from_tag s = (Some l, Some v))"
  by (auto simp: toolkit_and_version_from_tag_def split: option.splits)

lemma parser_none_iff:
  "toolkit_and_version_from_tag s = (None, None) \<longleftrightarrow> \<not> (\<exists>l v. tag_pattern_newline l v s)"
  using parser_total [of s] parser_result_iff [of s] by (metis option.distinct(1) prod.inject)


lemma tag_pattern_last:
  "tag_pattern l v s \<Longrightarrow> last s = CHR ''2'' \<or> last s = CHR ''3''"
  by (auto simp: tag_pattern_def device_py_suffixes_def)

text \<open>
  The tags the parser accepts: it returns the pair (letters, version) exactly on the tags
  of the pattern and on those followed by one newline, and \<^verbatim>\<open>(None, None)\<close> on every
  other tag; it always returns.
\<close>

lemma tag_parser_accepted_tags:
  "(toolkit_and_version_from_tag s = (Some l, Some v) \<longleftrightarrow> tag_pattern_newline l v s)
   \<and> (toolkit_and_version_from_tag s = (None, None)
        \<longleftrightarrow> \<not> (\<exists>l' v'. tag_pattern_newline l' v' s))
   \<and> (tag_pattern l v s \<longrightarrow> toolkit_and_version_from_tag s = (Some l, Some v))"
  using parser_result_iff [of s l v] parser_none_iff [of s]
  by (simp add: tag_pattern_newline_def)

text \<open>
  C7: on the tag \<^verbatim>\<open>coach0.11-gpu-py3\<close> the parser returns the toolkit \<^verbatim>\<open>coach\<close> and
  the version \<^verbatim>\<open>0.11\<close>, as the claim says. On the same tag followed by a newline,
  which is not of the pattern (it does not end with \<^verbatim>\<open>py2\<close> or \<^verbatim>\<open>py3\<close>), the parser
  returns the same pair, where the claim requires \<^verbatim>\<open>(None, None)\<close>: the \<^verbatim>\<open>$\<close> of
  the expression also holds just before a newline that ends the string.
\<close>

theorem tag_parser_accepts_trailing_newline:
  "toolkit_and_version_from_tag ''coach0.11-gpu-py3'' = (Some ''coach'', Some ''0.11'')
   \<and> toolkit_and_version_from_tag (''coach0.11-gpu-py3'' @ [CHR 0x0A])
     = (Some ''coach'', Some ''0.11'')
   \<and> \<not> (\<exists>l v. tag_pattern l v (''coach0.11-gpu-py3'' @ [CHR 0x0A]))"
proof -
  have "tag_pattern_newline ''coach'' ''0.11'' ''coach0.11-gpu-py3''"
    by (simp add: tag_pattern_newline_def tag_pattern_def letters_shape_def version_shape_def
        device_py_suffixes_def is_lower_def is_digit_def not_newline_def)
  then have p: "toolkit_and_version_from_tag ''coach0.11-gpu-py3''
      = (Some ''coach'', Some ''0.11'')"
    by (simp only: parser_result_iff)
  have "tag_pattern_newline ''coach'' ''0.11'' (''coach0.11-gpu-py3'' @ [CHR 0x0A])"
    by (simp add: tag_pattern_newline_def tag_pattern_def letters_shape_def version_shape_def
        device_py_suffixes_def is_lower_def is_digit_def not_newline_def)
  then have a: "toolkit_and_version_from_tag (''coach0.11-gpu-py3'' @ [CHR 0x0A])
      = (Some ''coach'', Some ''0.11'')"
    by (simp only: parser_result_iff)
  have b: "\<not> (\<exists>l v. tag_pattern l v (''coach0.11-gpu-py3'' @ [CHR 0x0A]))"
    using tag_pattern_last [of _ _ "''coach0.11-gpu-py3'' @ [CHR 0x0A]"] by auto
  from p a b show ?thesis by blast
qed

subsection \<open>The MXNet estimator\<close>

text \<open>
  C2: with a \<^verbatim>\<open>distributions\<close> argument, construction at framework version 1.10 raises
  the error "valid for only versions 1.3 and higher", for every \<^verbatim>\<open>distributions\<close>
  dictionary, while version 1.9 is accepted: the comparison is of the lists of strings
  \<^verbatim>\<open>["1", "10"]\<close> and \<^verbatim>\<open>["1", "3"]\<close>, and \<^verbatim>\<open>"10" < "3"\<close> as strings.
\<close>

theorem mxnet_distributions_rejects_version_1_10:
  "MXNet_init default_version (Inr hps) py (Some ''1.10'') (Some d)
     = Inl (ValueError ''The distributions option is valid for only versions 1.3 and higher'')
   \<and> MXNet_init default_version (Inr hps) py (Some ''1.9'') (Some Map.empty)
     = Inr \<lparr>mx_framework_version = ''1.9'', mx_py_version = py, mx_hyperparameters = hps\<rparr>"
  by (simp add: MXNet_init_def configure_distribution_def str_list_lt_def str_lt_def char_lt_def
      LOWEST_SCRIPT_MODE_VERSION_def)

subsection \<open>Construction of the RL estimator\<close>

lemma validate_images_args_members_with_image:
  assumes "image_name \<noteq> []"
  shows "validate_images_args (PyToolkit t) ver (PyFramework f) (Some image_name)
    = Inr [''Parameter `image_name` is specified, `''
        @ join ''`, `'' ([''toolkit''] @ (if truthy_str ver then [''toolkit_version''] else [])
            @ [''framework''])
        @ ''` are going to be ignored when choosing the image.'']"
  using assms
  by (simp add: validate_images_args_def validate_toolkit_format_def
      validate_framework_format_def)

text \<open>
  C5: with an explicit (non-empty) \<^verbatim>\<open>image_name\<close> and members of the two enumerations as
  toolkit and framework, construction succeeds whenever the constructor of the base class
  does, exactly one warning is logged, and the toolkit arguments are ignored: the object
  is the one built from the image alone, none of its toolkit attributes is set, the
  training image is \<^verbatim>\<open>image_name\<close>, and the hyperparameters are those of the base class
  with the output location and the estimator name, whatever the toolkit arguments were.
\<close>

theorem explicit_image_ignores_toolkit_arguments:
  assumes "image_name \<noteq> []" and "super_init (Some image_name) metric_definitions = Inr b"
  shows "\<exists>est warning.
      RLEstimator_init super_init (PyToolkit t) ver (PyFramework f) (Some image_name)
          metric_definitions = (Inr est, [warning])
      \<and> fst (RLEstimator_init super_init PyNone None PyNone (Some image_name)
          metric_definitions) = Inr est
      \<and> est_toolkit est = None \<and> est_toolkit_version est = None
      \<and> est_framework est = None \<and> est_framework_version est = None
      \<and> train_image create_image_uri est = Inr image_name
      \<and> hyperparameters out_key super_hyperparameters output_path est
          = (super_hyperparameters b)
              (out_key \<mapsto> json_encode_opt (output_path b),
               SAGEMAKER_ESTIMATOR \<mapsto> json_dumps SAGEMAKER_ESTIMATOR_VALUE)"
proof -
  have n: "validate_images_args PyNone None PyNone (Some image_name) = Inr []"
    using assms(1)
    by (simp add: validate_images_args_def validate_toolkit_format_def
        validate_framework_format_def)
  show ?thesis
    using assms
    by (simp add: RLEstimator_init_def validate_images_args_members_with_image n
        train_image_def hyperparameters_def)
qed

text \<open>C5 at COACH, 0.11.1, TENSORFLOW and the image \<^verbatim>\<open>my-image\<close>.\<close>

theorem explicit_image_ignores_toolkit_arguments_witness:
  "\<exists>est warning.
      RLEstimator_init (\<lambda>i m. Inr ()) (PyToolkit COACH) (Some ''0.11.1'') (PyFramework TENSORFLOW)
          (Some ''my-image'') None = (Inr est, [warning])
      \<and> fst (RLEstimator_init (\<lambda>i m. Inr ()) PyNone None PyNone (Some ''my-image'') None)
          = Inr est
      \<and> train_image (\<lambda>fw v py. fw @ v @ py) est = Inr ''my-image''
      \<and> hyperparameters ''sagemaker_output_location'' (\<lambda>b. Map.empty) (\<lambda>b. None) est
          = [''sagemaker_output_location'' \<mapsto> json_encode_opt None,
             SAGEMAKER_ESTIMATOR \<mapsto> json_dumps SAGEMAKER_ESTIMATOR_VALUE]"
proof -
  have i: "''my-image'' \<noteq> []" by simp
  have s: "(\<lambda>i m. Inr ()) (Some ''my-image'') None = Inr ()" by simp
  from explicit_image_ignores_toolkit_arguments [of "''my-image''" "\<lambda>i m. Inr ()" None "()",
      OF i s, where t = COACH and ver = "Some ''0.11.1''" and f = TENSORFLOW
      and create_image_uri = "\<lambda>fw v py. fw @ v @ py"
      and out_key = "''sagemaker_output_location''"
      and super_hyperparameters = "\<lambda>b. Map.empty" and output_path = "\<lambda>b. None"]
  show ?thesis by blast
qed

lemma supported_version_truthy:
  "is_combination_supported tk ver fw \<Longrightarrow> truthy_str ver"
  by (cases ver)
    (auto simp: is_combination_supported_def TOOLKIT_FRAMEWORK_VERSION_MAP_def
      split: option.splits if_splits)

lemma validate_images_args_members_no_image:
  assumes "\<not> truthy_str image_name"
  shows "validate_images_args (PyToolkit t) ver (PyFramework f) image_name
    = (if truthy_str ver then Inr []
       else Inl (AttributeError (''Please provide `toolkit_version` or `image_name` parameter.'')))"
  using assms
  by (simp add: validate_images_args_def validate_toolkit_format_def
      validate_framework_format_def)

lemma supported_iff_in_support_table:
  "is_combination_supported (Some (toolkit_value t)) ver (framework_value f)
    \<longleftrightarrow> spec_framework_version t ver f \<noteq> None"
  by (cases t; cases f; cases ver)
    (auto simp: is_combination_supported_def TOOLKIT_FRAMEWORK_VERSION_MAP_def
      spec_framework_version_def support_table_def split: if_splits)

lemma table_lookup_support_table:
  "spec_framework_version t ver f = Some fv
    \<Longrightarrow> table_lookup (toolkit_value t) ver (framework_value f) = Inr fv"
  by (cases t; cases f; cases ver)
    (auto simp: table_lookup_def TOOLKIT_FRAMEWORK_VERSION_MAP_def
      spec_framework_version_def support_table_def split: if_splits)

text \<open>
  C6: without an explicit image, a triple of toolkit, version and framework that is not
  an entry of the support table makes construction raise \<^verbatim>\<open>AttributeError\<close> whatever
  the constructor of the base class would do (it is not reached), with nothing logged;
  for an entry of the table the constructor of the base class is called, and when it
  returns, the object's \<^verbatim>\<open>framework_version\<close> is the framework version of that entry.
\<close>

theorem unsupported_combination_fails_supported_resolves:
  assumes "\<not> truthy_str image_name"
    and "md = (if falsy_list metric_definitions then default_metric_definitions (PyToolkit t)
               else metric_definitions)"
  shows "(spec_framework_version t ver f = None
        \<longrightarrow> (\<exists>msg. RLEstimator_init super_init (PyToolkit t) ver (PyFramework f) image_name
              metric_definitions = (Inl (AttributeError msg), [])))
    \<and> (\<forall>fv. spec_framework_version t ver f = Some fv
        \<longrightarrow> RLEstimator_init super_init (PyToolkit t) ver (PyFramework f) image_name
                  metric_definitions
                = (case super_init image_name md of
                     Inl e \<Rightarrow> (Inl e, [])
                   | Inr b \<Rightarrow>
                       (Inr \<lparr>est_toolkit = Some (toolkit_value t), est_toolkit_version = ver,
                              est_framework = Some (framework_value f),
                              est_framework_version = Some fv,
                              est_image_name = image_name, est_metric_definitions = md,
                              est_base = b\<rparr>, [])))"
proof (intro conjI impI allI)
  assume "spec_framework_version t ver f = None"
  then have u: "\<not> is_combination_supported (Some (toolkit_value t)) ver (framework_value f)"
    by (simp add: supported_iff_in_support_table)
  show "\<exists>msg. RLEstimator_init super_init (PyToolkit t) ver (PyFramework f) image_name
              metric_definitions = (Inl (AttributeError msg), [])"
    using assms(1) u
    by (simp add: RLEstimator_init_def validate_images_args_members_no_image
        validate_toolkit_support_def)
next
  fix fv
  assume e: "spec_framework_version t ver f = Some fv"
  then have s: "is_combination_supported (Some (toolkit_value t)) ver (framework_value f)"
    by (simp add: supported_iff_in_support_table)
  have fv: "table_lookup (toolkit_value t) ver (framework_value f) = Inr fv"
    using table_lookup_support_table [OF e] .
  from supported_version_truthy [OF s] have v: "truthy_str ver" .
  show "RLEstimator_init super_init (PyToolkit t) ver (PyFramework f) image_name
                  metric_definitions
                = (case super_init image_name md of
                     Inl e \<Rightarrow> (Inl e, [])
                   | Inr b \<Rightarrow>
                       (Inr \<lparr>est_toolkit = Some (toolkit_value t), est_toolkit_version = ver,
                              est_framework = Some (framework_value f),
                              est_framework_version = Some fv,
                              est_image_name = image_name, est_metric_definitions = md,
                              est_base = b\<rparr>, []))"
    using assms s fv v
    by (simp add: RLEstimator_init_def validate_images_args_members_no_image
        validate_toolkit_support_def Let_def split: sum.splits)
qed

text \<open>C6 at (RAY, 0.5.3, MXNET), which fails, and (COACH, 0.11.1, TENSORFLOW), which gives 1.12.\<close>

theorem unsupported_combination_fails_supported_resolves_witness:
  "spec_framework_version RAY (Some ''0.5.3'') MXNET = None
   \<and> (\<exists>msg. RLEstimator_init (\<lambda>i m. Inr ()) (PyToolkit RAY) (Some ''0.5.3'') (PyFramework MXNET)
        None None = (Inl (AttributeError msg), []))
   \<and> spec_framework_version COACH (Some ''0.11.1'') TENSORFLOW = Some ''1.12''
   \<and> (\<exists>est. RLEstimator_init (\<lambda>i m. Inr ()) (PyToolkit COACH) (Some ''0.11.1'')
        (PyFramework TENSORFLOW) None None = (Inr est, [])
        \<and> est_framework_version est = Some ''1.12'')"
proof -
  have a: "spec_framework_version RAY (Some ''0.5.3'') MXNET = None"
    by (simp add: spec_framework_version_def support_table_def)
  have b: "spec_framework_version COACH (Some ''0.11.1'') TENSORFLOW = Some ''1.12''"
    by (simp add: spec_framework_version_def support_table_def)
  have n: "\<not> truthy_str None" by simp
  from unsupported_combination_fails_supported_resolves [OF n refl, of RAY "Some ''0.5.3''" MXNET
      "\<lambda>i m. Inr ()" None] a
  have 1: "\<exists>msg. RLEstimator_init (\<lambda>i m. Inr ()) (PyToolkit RAY) (Some ''0.5.3'')
      (PyFramework MXNET) None None = (Inl (AttributeError msg), [])"
    by blast
  from unsupported_combination_fails_supported_resolves [OF n refl, of COACH "Some ''0.11.1''"
      TENSORFLOW "\<lambda>i m. Inr ()" None] b
  have 2: "\<exists>est. RLEstimator_init (\<lambda>i m. Inr ()) (PyToolkit COACH) (Some ''0.11.1'')
        (PyFramework TENSORFLOW) None None = (Inr est, [])
        \<and> est_framework_version est = Some ''1.12''"
    by auto
  from a b 1 2 show ?thesis by blast
qed

text \<open>
  C10: whatever the image argument is, a toolkit whose truth value is true and that is not
  a member of \<^verbatim>\<open>RLToolkit\<close>, or such a framework for \<^verbatim>\<open>RLFramework\<close>, makes construction
  raise \<^verbatim>\<open>ValueError\<close> before anything else; an argument whose truth value is false
  passes the format check.
\<close>

theorem enum_format_checked_despite_image:
  "((truthy toolkit \<and> \<not> in_RLToolkit toolkit) \<or> (truthy framework \<and> \<not> in_RLFramework framework)
      \<longrightarrow> (\<exists>msg. RLEstimator_init super_init toolkit ver framework image_name metric_definitions
            = (Inl (ValueError msg), [])))
   \<and> (\<not> truthy toolkit \<longrightarrow> validate_toolkit_format toolkit = Inr ())
   \<and> (\<not> truthy framework \<longrightarrow> validate_framework_format framework = Inr ())"
  by (auto simp: RLEstimator_init_def validate_images_args_def validate_toolkit_format_def
      validate_framework_format_def)

text \<open>
  C10 at the string \<^verbatim>\<open>"coach"\<close> as toolkit and at a member of \<^verbatim>\<open>RLToolkit\<close> as
  framework, each with an explicit image.
\<close>

theorem enum_format_checked_despite_image_witness:
  "(\<exists>msg. RLEstimator_init (\<lambda>i m. Inr ()) (PyStr ''coach'') (Some ''0.11'')
        (PyFramework TENSORFLOW) (Some ''my-image'') None = (Inl (ValueError msg), []))
   \<and> (\<exists>msg. RLEstimator_init (\<lambda>i m. Inr ()) (PyToolkit COACH) (Some ''0.11'')
        (PyToolkit RAY) (Some ''my-image'') None = (Inl (ValueError msg), []))
   \<and> validate_toolkit_format PyNone = Inr ()"
  using enum_format_checked_despite_image [of "PyStr ''coach''" "PyFramework TENSORFLOW"
      "\<lambda>i m. Inr ()" "Some ''0.11''" "Some ''my-image''" None]
    enum_format_checked_despite_image [of "PyToolkit COACH" "PyToolkit RAY"
      "\<lambda>i m. Inr ()" "Some ''0.11''" "Some ''my-image''" None]
    enum_format_checked_despite_image [of PyNone PyNone "\<lambda>i m. Inr ()" None None None]
  by simp

text \<open>
  C10, as stated, fails on the empty string as toolkit: it is not \<^verbatim>\<open>None\<close> and not a
  member of \<^verbatim>\<open>RLToolkit\<close>, and construction with an explicit image succeeds.
\<close>

theorem empty_string_toolkit_counterexample:
  "PyStr [] \<noteq> PyNone \<and> \<not> in_RLToolkit (PyStr [])
   \<and> fst (RLEstimator_init (\<lambda>i m. Inr ()) (PyStr []) (Some ''0.11'') (PyFramework TENSORFLOW)
        (Some ''my-image'') None)
     = Inr \<lparr>est_toolkit = None, est_toolkit_version = None, est_framework = None,
            est_framework_version = None, est_image_name = Some ''my-image'',
            est_metric_definitions = None, est_base = ()\<rparr>"
  by (simp add: RLEstimator_init_def validate_images_args_def validate_toolkit_format_def
      validate_framework_format_def)

subsection \<open>The round trip through the image tag\<close>

lemma supported_version_shape:
  "is_combination_supported (Some (toolkit_value t)) (Some v) fw \<Longrightarrow> version_shape v"
  by (cases t)
    (auto simp: is_combination_supported_def TOOLKIT_FRAMEWORK_VERSION_MAP_def
      version_shape_def is_digit_def not_newline_def split: if_splits)

lemma toolkit_value_letters: "letters_shape (toolkit_value t)"
  by (cases t) (simp_all add: letters_shape_def is_lower_def)

lemma RLToolkit_of_value: "RLToolkit_of (Some (toolkit_value t)) = Inr t"
  by (cases t) (simp_all add: RLToolkit_of_def)

lemma RLFramework_of_value: "RLFramework_of (framework_value f) = Inr f"
  by (cases f) (simp_all add: RLFramework_of_def)

lemma framework_value_nonempty: "framework_value f \<noteq> []"
  by (cases f) simp_all

lemma supported_tag_parsed:
  assumes "is_combination_supported (Some (toolkit_value t)) (Some v) fw"
    and "device = ''cpu'' \<or> device = ''gpu''"
  shows "toolkit_and_version_from_tag (toolkit_value t @ v @ ''-'' @ device @ ''-py3'')
    = (Some (toolkit_value t), Some v)"
proof -
  have "tag_pattern (toolkit_value t) v (toolkit_value t @ v @ ''-'' @ device @ ''-py3'')"
    using assms(2) supported_version_shape [OF assms(1)] toolkit_value_letters [of t]
    by (auto simp: tag_pattern_def device_py_suffixes_def)
  then show ?thesis
    by (simp add: parser_result_iff tag_pattern_newline_def)
qed

text \<open>
  C1: for every triple of the support table and either device, the estimator built from
  the triple has the image tag \<open>toolkit @ version @ -device-py3\<close>, and the tag parser
  returns the toolkit and its version from that tag. The framework is not in the tag:
  it is the framework component of the image name, and with it the reconstruction from
  the job description returns the three original arguments.
\<close>

theorem image_tag_round_trip:
  assumes "is_combination_supported (Some (toolkit_value t)) (Some v) (framework_value f)"
    and "device = ''cpu'' \<or> device = ''gpu''"
    and "RLEstimator_init super_init (PyToolkit t) (Some v) (PyFramework f) None
           metric_definitions = (Inr est, warnings)"
    and "init_params ''image'' = Some (PyStr image_name)"
    and "framework_name_from_image image_name
           = (Some (framework_value f), py, Some (toolkit_value t @ v @ ''-'' @ device @ ''-py3''),
              sm)"
  shows "would_be_image_tag est device = Inr (toolkit_value t @ v @ ''-'' @ device @ ''-py3'')
    \<and> toolkit_and_version_from_tag (toolkit_value t @ v @ ''-'' @ device @ ''-py3'')
        = (Some (toolkit_value t), Some v)
    \<and> RLEstimator_prepare_init_params_from_job_description framework_name_from_image
          init_params
        = Inr ((init_params(''image'' := None))
                 (''toolkit'' \<mapsto> PyToolkit t, ''toolkit_version'' \<mapsto> PyStr v,
                  ''framework'' \<mapsto> PyFramework f))"
proof -
  let ?tag = "toolkit_value t @ v @ ''-'' @ device @ ''-py3''"
  have p: "toolkit_and_version_from_tag ?tag = (Some (toolkit_value t), Some v)"
    using supported_tag_parsed [OF assms(1) assms(2)] .
  have e: "est_toolkit est = Some (toolkit_value t) \<and> est_toolkit_version est = Some v"
    using assms(3)
    by (auto simp: RLEstimator_init_def Let_def split: sum.splits if_splits)
  then have w: "would_be_image_tag est device = Inr ?tag"
    by (simp add: would_be_image_tag_def image_version_def create_image_tag_def
        PYTHON_VERSION_def)
  have r: "RLEstimator_prepare_init_params_from_job_description framework_name_from_image
          init_params
        = Inr ((init_params(''image'' := None))
                 (''toolkit'' \<mapsto> PyToolkit t, ''toolkit_version'' \<mapsto> PyStr v,
                  ''framework'' \<mapsto> PyFramework f))"
    using assms(1) assms(4) assms(5) p
    by (simp add: RLEstimator_prepare_init_params_from_job_description_def
        framework_value_nonempty RLToolkit_of_value RLFramework_of_value)
  from w p r show ?thesis by blast
qed

text \<open>C1 at (COACH, 0.11.0, MXNET) on a CPU instance.\<close>

theorem image_tag_round_trip_witness:
  "would_be_image_tag
      \<lparr>est_toolkit = Some ''coach'', est_toolkit_version = Some ''0.11.0'',
       est_framework = Some ''mxnet'', est_framework_version = Some ''1.3'',
       est_image_name = None,
       est_metric_definitions = default_metric_definitions (PyToolkit COACH),
       est_base = ()\<rparr> ''cpu'' = Inr ''coach0.11.0-cpu-py3''
   \<and> toolkit_and_version_from_tag ''coach0.11.0-cpu-py3'' = (Some ''coach'', Some ''0.11.0'')
   \<and> RLEstimator_prepare_init_params_from_job_description
        (\<lambda>i. (Some ''mxnet'', Some ''py3'', Some ''coach0.11.0-cpu-py3'', None))
        [''image'' \<mapsto> PyStr ''rl-mxnet:coach0.11.0-cpu-py3'']
      = Inr (([''image'' \<mapsto> PyStr ''rl-mxnet:coach0.11.0-cpu-py3''](''image'' := None))
               (''toolkit'' \<mapsto> PyToolkit COACH, ''toolkit_version'' \<mapsto> PyStr ''0.11.0'',
                ''framework'' \<mapsto> PyFramework MXNET))"
proof -
  have a: "is_combination_supported (Some (toolkit_value COACH)) (Some ''0.11.0'')
      (framework_value MXNET)"
    by (simp add: is_combination_supported_def TOOLKIT_FRAMEWORK_VERSION_MAP_def)
  have b: "''cpu'' = ''cpu'' \<or> ''cpu'' = ''gpu''" by simp
  have c: "RLEstimator_init (\<lambda>i m. Inr ()) (PyToolkit COACH) (Some ''0.11.0'')
      (PyFramework MXNET) None None
    = (Inr \<lparr>est_toolkit = Some ''coach'', est_toolkit_version = Some ''0.11.0'',
       est_framework = Some ''mxnet'', est_framework_version = Some ''1.3'',
       est_image_name = None,
       est_metric_definitions = default_metric_definitions (PyToolkit COACH),
       est_base = ()\<rparr>, [])"
    by (simp add: RLEstimator_init_def validate_images_args_def validate_toolkit_format_def
        validate_framework_format_def validate_toolkit_support_def table_lookup_def
        is_combination_supported_def TOOLKIT_FRAMEWORK_VERSION_MAP_def)
  have d: "[''image'' \<mapsto> PyStr ''rl-mxnet:coach0.11.0-cpu-py3''] ''image''
      = Some (PyStr ''rl-mxnet:coach0.11.0-cpu-py3'')"
    by simp
  from image_tag_round_trip [where t = COACH and v = "''0.11.0''" and f = MXNET
      and device = "''cpu''" and super_init = "\<lambda>i m. Inr ()" and metric_definitions = None
      and warnings = "[]"
      and init_params = "[''image'' \<mapsto> PyStr ''rl-mxnet:coach0.11.0-cpu-py3'']"
      and image_name = "''rl-mxnet:coach0.11.0-cpu-py3''"
      and framework_name_from_image
        = "\<lambda>i. (Some ''mxnet'', Some ''py3'', Some ''coach0.11.0-cpu-py3'', None)"
      and py = "Some ''py3''" and sm = None, OF a b c d]
  show ?thesis by simp
qed

text \<open>
  C1, as stated, fails: (COACH, 0.11.0, TENSORFLOW) and (COACH, 0.11.0, MXNET) are both in
  the table and give the same tag, from which the parser returns the toolkit and the
  version only.
\<close>

theorem image_tag_has_no_framework_counterexample:
  "is_combination_supported (Some ''coach'') (Some ''0.11.0'') ''tensorflow''
   \<and> is_combination_supported (Some ''coach'') (Some ''0.11.0'') ''mxnet''
   \<and> ''tensorflow'' \<noteq> ''mxnet''
   \<and> (case (fst (RLEstimator_init (\<lambda>i m. Inr ()) (PyToolkit COACH) (Some ''0.11.0'')
                (PyFramework TENSORFLOW) None None),
             fst (RLEstimator_init (\<lambda>i m. Inr ()) (PyToolkit COACH) (Some ''0.11.0'')
                (PyFramework MXNET) None None)) of
         (Inr e1, Inr e2) \<Rightarrow>
           est_framework e1 = Some ''tensorflow'' \<and> est_framework e2 = Some ''mxnet''
           \<and> would_be_image_tag e1 ''cpu'' = Inr ''coach0.11.0-cpu-py3''
           \<and> would_be_image_tag e2 ''cpu'' = Inr ''coach0.11.0-cpu-py3''
       | _ \<Rightarrow> False)
   \<and> toolkit_and_version_from_tag ''coach0.11.0-cpu-py3'' = (Some ''coach'', Some ''0.11.0'')"
proof -
  have "tag_pattern_newline ''coach'' ''0.11.0'' ''coach0.11.0-cpu-py3''"
    by (simp add: tag_pattern_newline_def tag_pattern_def letters_shape_def version_shape_def
        device_py_suffixes_def is_lower_def is_digit_def not_newline_def)
  then have "toolkit_and_version_from_tag ''coach0.11.0-cpu-py3''
      = (Some ''coach'', Some ''0.11.0'')"
    by (simp only: parser_result_iff)
  then show ?thesis
    by (simp add: RLEstimator_init_def validate_images_args_def validate_toolkit_format_def
        validate_framework_format_def validate_toolkit_support_def table_lookup_def
        is_combination_supported_def TOOLKIT_FRAMEWORK_VERSION_MAP_def
        would_be_image_tag_def image_version_def create_image_tag_def PYTHON_VERSION_def)
qed

subsection \<open>Reconstruction from a job description\<close>

lemma other_framework_unsupported:
  "fw \<noteq> ''tensorflow'' \<Longrightarrow> fw \<noteq> ''mxnet'' \<Longrightarrow> \<not> is_combination_supported tk ver fw"
  by (auto simp: is_combination_supported_def TOOLKIT_FRAMEWORK_VERSION_MAP_def
      split: option.splits if_splits)

text \<open>
  C4: when the image of a job decodes to a framework that is not the one of the
  reconstructing class, the reconstruction raises the \<^verbatim>\<open>ValueError\<close> that names the
  training job: for \<^verbatim>\<open>MXNet\<close>, on every framework other than \<^verbatim>\<open>mxnet\<close>; for
  \<^verbatim>\<open>RLEstimator\<close>, on every framework outside \<^verbatim>\<open>RLFramework\<close>, and more generally
  whenever toolkit, version and framework are not a combination of the support table.
\<close>

theorem framework_mismatch_raises_value_error:
  assumes "init_params ''image'' = Some (PyStr image_name)"
    and "init_params ''base_job_name'' = Some job"
    and "framework_name_from_image image_name = (Some fw, py, Some tag, sm)"
    and "fw \<noteq> []"
  shows "(fw \<noteq> framework_name
          \<and> (tag = ''1.0'' \<or> framework_version_from_tag (Some tag) = Inr fv)
        \<longrightarrow> MXNet_prepare_init_params_from_job_description framework_name_from_image
              framework_version_from_tag init_params
            = Inl (wrong_framework_error job))
    \<and> ((fw \<noteq> framework_value TENSORFLOW \<and> fw \<noteq> framework_value MXNET)
          \<or> \<not> is_combination_supported (fst (toolkit_and_version_from_tag tag))
                (snd (toolkit_and_version_from_tag tag)) fw
        \<longrightarrow> RLEstimator_prepare_init_params_from_job_description framework_name_from_image
              init_params
            = Inl (wrong_framework_error job))
    \<and> wrong_framework_error job
        = ValueError (''Training job: '' @ to_str job
            @ '' didn't use image for requested framework'')"
proof (intro conjI impI)
  assume "fw \<noteq> framework_name
          \<and> (tag = ''1.0'' \<or> framework_version_from_tag (Some tag) = Inr fv)"
  then show "MXNet_prepare_init_params_from_job_description framework_name_from_image
              framework_version_from_tag init_params
            = Inl (wrong_framework_error job)"
    using assms
    by (auto simp: MXNet_prepare_init_params_from_job_description_def)
next
  assume "(fw \<noteq> framework_value TENSORFLOW \<and> fw \<noteq> framework_value MXNET)
          \<or> \<not> is_combination_supported (fst (toolkit_and_version_from_tag tag))
                (snd (toolkit_and_version_from_tag tag)) fw"
  then have "\<not> is_combination_supported (fst (toolkit_and_version_from_tag tag))
                (snd (toolkit_and_version_from_tag tag)) fw"
    using other_framework_unsupported [of fw] by auto
  then show "RLEstimator_prepare_init_params_from_job_description framework_name_from_image
              init_params
            = Inl (wrong_framework_error job)"
    using assms
    by (simp add: RLEstimator_prepare_init_params_from_job_description_def split_beta)
next
  show "wrong_framework_error job
        = ValueError (''Training job: '' @ to_str job
            @ '' didn't use image for requested framework'')"
    by (simp add: wrong_framework_error_def)
qed

text \<open>
  C4 at a TensorFlow image given to \<^verbatim>\<open>MXNet\<close> and at a PyTorch image given to
  \<^verbatim>\<open>RLEstimator\<close>.
\<close>

theorem framework_mismatch_raises_value_error_witness:
  "MXNet_prepare_init_params_from_job_description
      (\<lambda>i. (Some ''tensorflow'', Some ''py2'', Some ''1.11-cpu-py2'', None))
      (\<lambda>t. Inr (Some ''1.11''))
      [''image'' \<mapsto> PyStr ''sagemaker-tensorflow:1.11-cpu-py2'', ''base_job_name'' \<mapsto> PyStr ''job'']
     = Inl (ValueError ''Training job: job didn't use image for requested framework'')
   \<and> RLEstimator_prepare_init_params_from_job_description
      (\<lambda>i. (Some ''pytorch'', Some ''py3'', Some ''coach0.11-cpu-py3'', None))
      [''image'' \<mapsto> PyStr ''sagemaker-rl-pytorch:coach0.11-cpu-py3'', ''base_job_name'' \<mapsto> PyStr ''job'']
     = Inl (ValueError ''Training job: job didn't use image for requested framework'')"
proof -
  have 1: "MXNet_prepare_init_params_from_job_description
      (\<lambda>i. (Some ''tensorflow'', Some ''py2'', Some ''1.11-cpu-py2'', None))
      (\<lambda>t. Inr (Some ''1.11''))
      [''image'' \<mapsto> PyStr ''sagemaker-tensorflow:1.11-cpu-py2'', ''base_job_name'' \<mapsto> PyStr ''job'']
     = Inl (ValueError ''Training job: job didn't use image for requested framework'')"
    using framework_mismatch_raises_value_error
      [of "[''image'' \<mapsto> PyStr ''sagemaker-tensorflow:1.11-cpu-py2'',
            ''base_job_name'' \<mapsto> PyStr ''job'']"
          "''sagemaker-tensorflow:1.11-cpu-py2''" "PyStr ''job''"
          "\<lambda>i. (Some ''tensorflow'', Some ''py2'', Some ''1.11-cpu-py2'', None)"
          "''tensorflow''" "Some ''py2''" "''1.11-cpu-py2''" None
          "\<lambda>t. Inr (Some ''1.11'')" "Some ''1.11''"]
    by (simp add: framework_name_def)
  have 2: "RLEstimator_prepare_init_params_from_job_description
      (\<lambda>i. (Some ''pytorch'', Some ''py3'', Some ''coach0.11-cpu-py3'', None))
      [''image'' \<mapsto> PyStr ''sagemaker-rl-pytorch:coach0.11-cpu-py3'', ''base_job_name'' \<mapsto> PyStr ''job'']
     = Inl (ValueError ''Training job: job didn't use image for requested framework'')"
    using framework_mismatch_raises_value_error
      [of "[''image'' \<mapsto> PyStr ''sagemaker-rl-pytorch:coach0.11-cpu-py3'',
            ''base_job_name'' \<mapsto> PyStr ''job'']"
          "''sagemaker-rl-pytorch:coach0.11-cpu-py3''" "PyStr ''job''"
          "\<lambda>i. (Some ''pytorch'', Some ''py3'', Some ''coach0.11-cpu-py3'', None)"
          "''pytorch''" "Some ''py3''" "''coach0.11-cpu-py3''" None]
    by simp
  from 1 2 show ?thesis by blast
qed

end
